theory Spec2Isabelle
  imports Main "HOL-Library.Signed_Division"
begin

section \<open>The range planner and the downloader facade of aliyunpan\<close>

text \<open>
  The development follows the Go file of package \<open>downloader\<close> that declares
  \<open>Downloader\<close>. Go's \<open>int\<close> and \<open>int64\<close> are modelled as \<open>int\<close>; where the source
  computes with them the 64-bit two's complement wrap-around is written out with
  \<open>wrap_int64\<close>, and \<open>/\<close> is Go's truncating division \<open>sdiv\<close>. A run-time panic of the
  source is a value of type \<open>panic\<close>.
\<close>

subsection \<open>Machine integers, panics and errors\<close>

definition wrap_int64 :: "int \<Rightarrow> int" where
  "wrap_int64 x = (x + 2 ^ 63) mod 2 ^ 64 - 2 ^ 63"

text \<open>Go's \<open>a / b\<close> on \<open>int64\<close> for \<open>b \<noteq> 0\<close>: truncation towards zero, wrapped.\<close>

definition go_div64 :: "int \<Rightarrow> int \<Rightarrow> int" where
  "go_div64 a b = wrap_int64 (a sdiv b)"

datatype panic = NilPointerDereference | IntegerDivideByZero | IndexOutOfRange

datatype error =
    ErrUnknownRangeGenMode
  | ErrFileDownloadForbidden
  | ErrNoWokers
  | ApiError string
  | OtherError string

subsection \<open>Data of package \<open>transfer\<close> used by the downloader\<close>

record Range =
  Begin :: int
  End :: int

text \<open>
  \<open>transfer.RangeGenMode\<close> has the two named values the source switches on; every other
  value of the type is \<open>RangeGenMode_Other\<close>.
\<close>

datatype RangeGenMode = RangeGenMode_Default | RangeGenMode_BlockSize | RangeGenMode_Other int

text \<open>
  A range generator is known here by the constructor call that made it:
  \<open>NewRangeListGenDefault(totalSize, begin, count, parallel)\<close> or
  \<open>NewRangeListGenBlockSize(totalSize, begin, blockSize)\<close>. Its methods \<open>LoadBlockSize\<close>
  and \<open>GenRange\<close> are not part of the file and are parameters of the functions that
  call them.
\<close>

datatype RangeListGen =
    NewRangeListGenDefault int int int int
  | NewRangeListGenBlockSize int int int

record DownloadStatus =
  totalSize :: int
  rangeListGen :: "RangeListGen option"
  rateLimit :: "int option"

record DownloadInstanceInfo =
  DownloadStatus :: "DownloadStatus option"
  Ranges :: "Range list"

record Config =
  Mode :: RangeGenMode
  BlockSize :: int
  SliceParallel :: int
  CacheSize :: int
  MaxRate :: int
  TryHTTP :: bool

subsection \<open>The planner\<close>

text \<open>
  \<open>SelectParallel\<close>. \<open>MinParallelSize\<close> is a package-level value declared outside the
  file; it is the first parameter, and a zero divisor is the panic Go raises.
\<close>

definition SelectParallel :: "int \<Rightarrow> int \<Rightarrow> int \<Rightarrow> int \<Rightarrow> Range list \<Rightarrow> panic + int" where
  "SelectParallel MinParallelSize prefParallel maxParallel totalSz instanceRangeList =
     (let isRange = (0 < length instanceRangeList);
          clamp = (\<lambda>parallel. if parallel < 1 then 1 else parallel)
      in if 0 < prefParallel then Inr (clamp prefParallel)
         else if isRange then Inr (clamp (int (length instanceRangeList)))
         else if MinParallelSize = 0 then Inl IntegerDivideByZero
         else if maxParallel > go_div64 totalSz MinParallelSize
              then Inr (clamp (wrap_int64 (go_div64 totalSz MinParallelSize + 1)))
              else Inr (clamp maxParallel))"

text \<open>
  \<open>SelectBlockSizeAndInitRangeGen\<close> returns the named results \<open>(blockSize, initErr)\<close> and
  the status with the generator it stored. \<open>parallel = 0\<close> divides by zero in
  \<open>BlockSize\<close> mode.
\<close>

definition SelectBlockSizeAndInitRangeGen ::
  "(RangeListGen \<Rightarrow> int) \<Rightarrow> Config \<Rightarrow> DownloadStatus \<Rightarrow> int
     \<Rightarrow> panic + ((int \<times> error option) \<times> DownloadStatus)" where
  "SelectBlockSizeAndInitRangeGen LoadBlockSize config status parallel =
     (if parallel = 1 then Inr ((- 1, None), status)
      else case rangeListGen status of
        Some gen \<Rightarrow> Inr ((LoadBlockSize gen, None), status\<lparr>rangeListGen := Some gen\<rparr>)
      | None \<Rightarrow>
          (case Mode config of
             RangeGenMode_Default \<Rightarrow>
               (let gen = NewRangeListGenDefault (totalSize status) 0 0 parallel
                in Inr ((LoadBlockSize gen, None), status\<lparr>rangeListGen := Some gen\<rparr>))
           | RangeGenMode_BlockSize \<Rightarrow>
               (if parallel = 0 then Inl IntegerDivideByZero
                else let b2 = wrap_int64 (go_div64 (totalSize status) parallel + 1);
                         blockSize = (if b2 > BlockSize config then BlockSize config else b2);
                         gen = NewRangeListGenBlockSize (totalSize status) 0 blockSize
                     in Inr ((blockSize, None), status\<lparr>rangeListGen := Some gen\<rparr>))
           | RangeGenMode_Other m \<Rightarrow> Inr ((0, Some ErrUnknownRangeGenMode), status)))"

definition SelectCacheSize :: "int \<Rightarrow> int \<Rightarrow> int" where
  "SelectCacheSize confCacheSize blockSize =
     (if blockSize > 0 \<and> confCacheSize > blockSize then blockSize else confCacheSize)"

text \<open>
  The loop of \<open>Execute\<close> that fills a fresh range list: at most \<open>cap(bii.Ranges)\<close> calls
  of \<open>gen.GenRange()\<close>, stopping at the first \<open>nil\<close> range. \<open>GenRange\<close> is a parameter
  that returns the range and the generator's next state.
\<close>

fun genRanges :: "(RangeListGen \<Rightarrow> Range option \<times> RangeListGen) \<Rightarrow> nat \<Rightarrow> RangeListGen \<Rightarrow> Range list" where
  "genRanges GenRange 0 gen = []"
| "genRanges GenRange (Suc n) gen =
     (case GenRange gen of
        (None, gen') \<Rightarrow> []
      | (Some r, gen') \<Rightarrow> r # genRanges GenRange n gen')"

text \<open>
  The range list the workers are built from (the block of \<open>Execute\<close> guarded by
  \<open>isRange\<close>): the checkpoint's list when it is not empty, else the single range
  \<open>[0, FileSize)\<close> for one thread, else the generator's ranges.
\<close>

definition initRanges ::
  "(RangeListGen \<Rightarrow> Range option \<times> RangeListGen) \<Rightarrow> Range list \<Rightarrow> int \<Rightarrow> int \<Rightarrow> DownloadStatus
     \<Rightarrow> panic + Range list" where
  "initRanges GenRange biiRanges parallel fileSize status =
     (let isRange = (0 < length biiRanges)
      in if isRange then Inr biiRanges
         else if parallel = 1 then Inr [\<lparr>Begin = 0, End = fileSize\<rparr>]
         else (case rangeListGen status of
                 None \<Rightarrow> Inl NilPointerDereference
               | Some gen \<Rightarrow> Inr (genRanges GenRange (nat parallel) gen)))"

subsection \<open>Accounts, files and download links\<close>

record FileEntity =
  FileId :: string
  FileSize :: int
  FileExtension :: string
  Path :: string
  AlbumId :: string
  DriveId :: string

record UserInfo =
  FileDriveId :: string
  ResourceDriveId :: string

record AlbumStreamsUrl =
  Mov :: string
  Heic :: string
  Jpeg :: string

record ShareAlbumGetFileUrlResult =
  StreamsUrl :: "AlbumStreamsUrl option"
  Url :: string

text \<open>
  An account's API client, by what its calls answer: a pair of the result pointer
  (\<open>None\<close> is \<open>nil\<close>) and the error. The result of \<open>GetFileDownloadUrl\<close> is kept as its
  \<open>Url\<close> field.
\<close>

record PanClient =
  account :: string
  GetFileDownloadUrl :: "string \<Rightarrow> string \<Rightarrow> string option \<times> error option"
  GetUserInfo :: "UserInfo option \<times> error option"
  FileInfoByPath :: "string \<Rightarrow> string \<Rightarrow> FileEntity option \<times> error option"
  ShareAlbumGetFileDownloadUrl ::
    "string \<Rightarrow> string \<Rightarrow> string \<Rightarrow> ShareAlbumGetFileUrlResult option \<times> error option"

record panClientDownloadUrlEntity =
  url_PanClient :: string
  url_FileInfo :: FileEntity
  url_DriveId :: string
  url_FileId :: string
  FileUrl :: string

subsection \<open>HTTP probes\<close>

text \<open>A request URL is its scheme and what follows the colon after the scheme.\<close>

record URL =
  Scheme :: string
  AfterScheme :: string

definition URL_String :: "URL \<Rightarrow> string" where
  "URL_String u = Scheme u @ '':'' @ AfterScheme u"

record Response =
  StatusCode :: int
  ContentLength :: int
  Request :: "URL option"

text \<open>An HTTP client, by what a GET of a URL answers.\<close>

record HTTPClient =
  Req :: "string \<Rightarrow> Response option \<times> error option"

type_synonym DURLCheckFunc = "HTTPClient \<Rightarrow> string \<Rightarrow> panic + (int \<times> Response option \<times> error option)"

definition DefaultDURLCheckFunc :: DURLCheckFunc where
  "DefaultDURLCheckFunc cl durl =
     (case Req cl durl of
        (resp, Some err) \<Rightarrow> Inr (0, None, Some err)
      | (None, None) \<Rightarrow> Inl NilPointerDereference
      | (Some resp, None) \<Rightarrow> Inr (ContentLength resp, Some resp, None))"

subsection \<open>Events, effects and outcomes\<close>

datatype event =
    onExecuteEvent | onSuccessEvent | onFailedEvent | onFinishEvent
  | onPauseEvent | onResumeEvent | onCancelEvent

datatype api =
    API_GetFileDownloadUrl | API_ShareAlbumGetFileDownloadUrl | API_GetUserInfo | API_FileInfoByPath

record Worker =
  worker_id :: nat
  worker_driveId :: string
  worker_fileId :: string
  worker_url :: string
  worker_panClient :: string
  worker_totalSize :: int
  worker_acceptRange :: string
  worker_range :: Range

text \<open>The monitor, by what \<open>Execute\<close> sets on it before it runs.\<close>

record Monitor =
  mon_capacity :: int
  mon_workers :: "Worker list"
  mon_status :: "DownloadStatus option"
  mon_reloadWorker :: bool

text \<open>
  What a call does beyond its result, in the order the source does it:
  \<open>cmdutil.Trigger\<close> of an event slot or of the monitor's cancel function, a probe by
  \<open>durlCheckFunc\<close>, \<open>initInstanceState\<close> and \<open>removeInstanceState\<close> on the checkpoint, a call
  of an account's API, the cache pool resize, the pre-allocation, and the monitor's
  \<open>Execute\<close>, \<open>Pause\<close> and \<open>Resume\<close>.
\<close>

datatype effect =
    Trigger event
  | TriggerMonitorCancelFunc
  | DurlCheck string
  | InitInstanceState
  | RemoveInstanceState
  | ApiCall string api
  | SetSyncPoolSize int
  | PreAlloc int
  | MonitorExecute Monitor
  | MonitorPause
  | MonitorResume

datatype outcome = Panicked panic | Returned "error option"

subsection \<open>The downloader\<close>

datatype FileSourceType = UnsetSource | FileSource | AlbumSource

definition NewMonitor :: Monitor where
  "NewMonitor = \<lparr>mon_capacity = 0, mon_workers = [], mon_status = None, mon_reloadWorker = False\<rparr>"

record Downloader =
  filePanSource :: FileSourceType
  fileInfo :: "FileEntity option"
  driveId :: string
  durlCheckFunc :: "DURLCheckFunc option"
  loadBalansers :: "string list"
  writerIsFder :: bool
  client :: "HTTPClient option"
  panClient :: PanClient
  subPanClientList :: "PanClient list"
  config :: "Config option"
  monitor :: "Monitor option"

text \<open>
  What the file uses and does not declare: package-level values, constructors of
  other packages, the checkpoint store's answers and the error the monitor ends with
  for the workers it was given.
\<close>

record Extern =
  ext_MinParallelSize :: int
  ext_MaxParallelWorkerCount :: int
  ext_IllegalDownloadUrlPrefix :: string
  ext_NewConfig :: Config
  ext_NewHTTPClient :: HTTPClient
  ext_LoadBlockSize :: "RangeListGen \<Rightarrow> int"
  ext_GenRange :: "RangeListGen \<Rightarrow> Range option \<times> RangeListGen"
  ext_initInstanceState :: "error option"
  ext_instanceState_Get :: "DownloadInstanceInfo option"
  ext_monitor_Err :: "Monitor \<Rightarrow> error option"

definition NewDownloader :: "bool \<Rightarrow> Config option \<Rightarrow> PanClient \<Rightarrow> PanClient list \<Rightarrow> Downloader" where
  "NewDownloader writer cfg p sp =
     \<lparr>filePanSource = UnsetSource, fileInfo = None, driveId = [], durlCheckFunc = None,
      loadBalansers = [], writerIsFder = writer, client = None, panClient = p,
      subPanClientList = sp, config = cfg, monitor = None\<rparr>"

definition SetFileInfo :: "FileSourceType \<Rightarrow> FileEntity \<Rightarrow> Downloader \<Rightarrow> Downloader" where
  "SetFileInfo source f der = der\<lparr>filePanSource := source, fileInfo := Some f\<rparr>"

definition SetDriveId :: "string \<Rightarrow> Downloader \<Rightarrow> Downloader" where
  "SetDriveId d der = der\<lparr>driveId := d\<rparr>"

definition lazyInit :: "Extern \<Rightarrow> Downloader \<Rightarrow> Downloader" where
  "lazyInit ext der =
     der\<lparr>config := Some (case config der of None \<Rightarrow> ext_NewConfig ext | Some c \<Rightarrow> c),
         client := Some (case client der of None \<Rightarrow> ext_NewHTTPClient ext | Some c \<Rightarrow> c),
         monitor := Some (case monitor der of None \<Rightarrow> NewMonitor | Some m \<Rightarrow> m),
         durlCheckFunc :=
           Some (case durlCheckFunc der of None \<Rightarrow> DefaultDURLCheckFunc | Some f \<Rightarrow> f)\<rparr>"

subsection \<open>Probing the load balancers\<close>

text \<open>
  \<open>handleLoadBalancer\<close>, the closure of \<open>checkLoadBalancers\<close>: the URL of the entry it
  appends, or nothing for a \<open>nil\<close> request.
\<close>

definition handleLoadBalancer :: "Config \<Rightarrow> URL option \<Rightarrow> string option" where
  "handleLoadBalancer cfg req =
     (case req of
        None \<Rightarrow> None
      | Some u \<Rightarrow> Some (URL_String (if TryHTTP cfg then u\<lparr>Scheme := ''http''\<rparr> else u)))"

text \<open>
  The body of one probing goroutine, after \<open>der.durlCheckFunc\<close> has answered
  \<open>(subContentLength, subResp, subErr)\<close>: the URL it admits, if any. The switch on
  \<open>subResp.StatusCode / 100\<close> returns for 4 and 5 only.
\<close>

definition probeLoadBalancer ::
  "Config \<Rightarrow> int \<Rightarrow> int \<times> Response option \<times> error option \<Rightarrow> panic + string option" where
  "probeLoadBalancer cfg fileSize answer =
     (case answer of
        (subContentLength, subResp, Some subErr) \<Rightarrow> Inr None
      | (subContentLength, None, None) \<Rightarrow> Inl NilPointerDereference
      | (subContentLength, Some resp, None) \<Rightarrow>
          (if go_div64 (StatusCode resp) 100 = 4 \<or> go_div64 (StatusCode resp) 100 = 5
           then Inr None
           else if fileSize = subContentLength
                then Inr (handleLoadBalancer cfg (Request resp))
                else Inr None))"

text \<open>
  The probes run concurrently in the source; the admitted URLs are listed here in the
  order of \<open>der.loadBalansers\<close>, after the entry \<open>"der.durl"\<close> that is always added first.
\<close>

fun probeLoadBalancers ::
  "Config \<Rightarrow> HTTPClient \<Rightarrow> DURLCheckFunc \<Rightarrow> int \<Rightarrow> string list \<Rightarrow> panic + string list" where
  "probeLoadBalancers cfg cl chk fileSize [] = Inr []"
| "probeLoadBalancers cfg cl chk fileSize (loadBalanser # rest) =
     (case chk cl loadBalanser of
        Inl p \<Rightarrow> Inl p
      | Inr answer \<Rightarrow>
          (case probeLoadBalancer cfg fileSize answer of
             Inl p \<Rightarrow> Inl p
           | Inr admitted \<Rightarrow>
               (case probeLoadBalancers cfg cl chk fileSize rest of
                  Inl p \<Rightarrow> Inl p
                | Inr urls \<Rightarrow> Inr (case admitted of None \<Rightarrow> urls | Some u \<Rightarrow> u # urls))))"

definition checkLoadBalancers ::
  "Config \<Rightarrow> HTTPClient \<Rightarrow> DURLCheckFunc \<Rightarrow> int \<Rightarrow> string list \<Rightarrow> (panic + string list) \<times> effect list" where
  "checkLoadBalancers cfg cl chk fileSize lbs =
     (case probeLoadBalancers cfg cl chk fileSize lbs of
        Inl p \<Rightarrow> (Inl p, map DurlCheck lbs)
      | Inr urls \<Rightarrow> (Inr (''der.durl'' # urls), map DurlCheck lbs))"

text \<open>
  \<open>SequentialGet\<close> of the load balancer list is declared outside the file.
  Modelled from the spec: ``\<open>SequentialGet()\<close> returns URLs in admission order, cycling'';
  the \<open>n\<close>-th call on a list that is not empty returns entry \<open>n mod length\<close>, and a call
  on an empty list returns \<open>nil\<close>.
\<close>

definition SequentialGet :: "string list \<Rightarrow> nat \<Rightarrow> string option" where
  "SequentialGet lbl n = (if lbl = [] then None else Some (lbl ! (n mod length lbl)))"

subsection \<open>Resolving the download links\<close>

definition HasPrefix :: "string \<Rightarrow> string \<Rightarrow> bool" where
  "HasPrefix s pre = (take (length pre) s = pre)"

text \<open>ASCII lower-casing, for the comparison of the file extension with \<open>"mov"\<close>.\<close>

definition ToLower :: "string \<Rightarrow> string" where
  "ToLower s =
     map (\<lambda>c. if 65 \<le> (of_char c :: nat) \<and> (of_char c :: nat) \<le> 90
               then char_of ((of_char c :: nat) + 32) else c) s"

text \<open>
  The test \<open>durl == nil || durl.Url == "" || strings.HasPrefix(durl.Url, IllegalDownloadUrlPrefix)\<close>.
\<close>

definition noValidUrl :: "string \<Rightarrow> string option \<Rightarrow> bool" where
  "noValidUrl illegalPrefix durl =
     (case durl of None \<Rightarrow> True | Some u \<Rightarrow> u = [] \<or> HasPrefix u illegalPrefix)"

text \<open>One turn of the loop over \<open>der.subPanClientList\<close>: the entity it appends, if any.\<close>

definition subClientDownloadUrl ::
  "string \<Rightarrow> string \<Rightarrow> string \<Rightarrow> PanClient
     \<Rightarrow> (panic + panClientDownloadUrlEntity option) \<times> effect list" where
  "subClientDownloadUrl illegalPrefix mainDriveName mainFileFullPath spc =
     (case GetUserInfo spc of
        (userInfo, Some err1) \<Rightarrow> (Inr None, [ApiCall (account spc) API_GetUserInfo])
      | (userInfo, None) \<Rightarrow>
          (case (if mainDriveName = ''File''
                 then (case userInfo of
                         None \<Rightarrow> Inl NilPointerDereference
                       | Some ui \<Rightarrow> Inr (FileDriveId ui))
                 else if mainDriveName = ''Resource''
                 then (case userInfo of
                         None \<Rightarrow> Inl NilPointerDereference
                       | Some ui \<Rightarrow> Inr (ResourceDriveId ui))
                 else Inr []) of
             Inl p \<Rightarrow> (Inl p, [ApiCall (account spc) API_GetUserInfo])
           | Inr drive \<Rightarrow>
               (case FileInfoByPath spc drive mainFileFullPath of
                  (panfileInfo, Some err2) \<Rightarrow>
                    (Inr None, [ApiCall (account spc) API_GetUserInfo,
                                ApiCall (account spc) API_FileInfoByPath])
                | (None, None) \<Rightarrow>
                    (Inr None, [ApiCall (account spc) API_GetUserInfo,
                                ApiCall (account spc) API_FileInfoByPath])
                | (Some panfileInfo, None) \<Rightarrow>
                    (case GetFileDownloadUrl spc drive (FileId panfileInfo) of
                       (durl2, Some apierr) \<Rightarrow>
                         (Inr None, [ApiCall (account spc) API_GetUserInfo,
                                     ApiCall (account spc) API_FileInfoByPath,
                                     ApiCall (account spc) API_GetFileDownloadUrl])
                     | (durl2, None) \<Rightarrow>
                         (Inr (if noValidUrl illegalPrefix durl2 then None
                               else (case durl2 of
                                       None \<Rightarrow> None
                                     | Some u \<Rightarrow>
                                         Some \<lparr>url_PanClient = account spc, url_FileInfo = panfileInfo,
                                               url_DriveId = drive, url_FileId = FileId panfileInfo,
                                               FileUrl = u\<rparr>)),
                          [ApiCall (account spc) API_GetUserInfo,
                           ApiCall (account spc) API_FileInfoByPath,
                           ApiCall (account spc) API_GetFileDownloadUrl])))))"

fun subClientsDownloadUrls ::
  "string \<Rightarrow> string \<Rightarrow> string \<Rightarrow> PanClient list
     \<Rightarrow> (panic + panClientDownloadUrlEntity list) \<times> effect list" where
  "subClientsDownloadUrls illegalPrefix mainDriveName mainFileFullPath [] = (Inr [], [])"
| "subClientsDownloadUrls illegalPrefix mainDriveName mainFileFullPath (spc # rest) =
     (case subClientDownloadUrl illegalPrefix mainDriveName mainFileFullPath spc of
        (Inl p, tr) \<Rightarrow> (Inl p, tr)
      | (Inr found, tr) \<Rightarrow>
          (case subClientsDownloadUrls illegalPrefix mainDriveName mainFileFullPath rest of
             (Inl p, tr') \<Rightarrow> (Inl p, tr @ tr')
           | (Inr others, tr') \<Rightarrow>
               (Inr (case found of None \<Rightarrow> others | Some e \<Rightarrow> e # others), tr @ tr')))"

text \<open>
  \<open>getFileSourceDownloadUrl\<close> returns the pair \<open>(result, error)\<close> of the source, where
  \<open>None\<close> for the result is the \<open>nil\<close> slice.
\<close>

definition getFileSourceDownloadUrl ::
  "string \<Rightarrow> Downloader \<Rightarrow> FileEntity
     \<Rightarrow> (panic + (panClientDownloadUrlEntity list option \<times> error option)) \<times> effect list" where
  "getFileSourceDownloadUrl illegalPrefix der fi =
     (case GetFileDownloadUrl (panClient der) (driveId der) (FileId fi) of
        (durl, Some apierr) \<Rightarrow>
          (Inr (None, Some apierr),
           [ApiCall (account (panClient der)) API_GetFileDownloadUrl, Trigger onCancelEvent])
      | (durl, None) \<Rightarrow>
          (if noValidUrl illegalPrefix durl
           then (Inr (None, Some ErrFileDownloadForbidden),
                 [ApiCall (account (panClient der)) API_GetFileDownloadUrl,
                  Trigger onCancelEvent, RemoveInstanceState, Trigger onFailedEvent])
           else
             (case GetUserInfo (panClient der) of
                (openUserInfo, Some err) \<Rightarrow>
                  (Inr (None, Some err),
                   [ApiCall (account (panClient der)) API_GetFileDownloadUrl,
                    ApiCall (account (panClient der)) API_GetUserInfo])
              | (None, None) \<Rightarrow>
                  (Inr (None, None),
                   [ApiCall (account (panClient der)) API_GetFileDownloadUrl,
                    ApiCall (account (panClient der)) API_GetUserInfo])
              | (Some openUserInfo, None) \<Rightarrow>
                  (let mainDriveName =
                         (if FileDriveId openUserInfo = driveId der then ''File''
                          else if ResourceDriveId openUserInfo = driveId der then ''Resource''
                          else []);
                       mainFileFullPath = Path fi;
                       primary = \<lparr>url_PanClient = account (panClient der), url_FileInfo = fi,
                                  url_DriveId = driveId der, url_FileId = FileId fi,
                                  FileUrl = (case durl of None \<Rightarrow> [] | Some u \<Rightarrow> u)\<rparr>
                   in case subClientsDownloadUrls illegalPrefix mainDriveName mainFileFullPath
                             (subPanClientList der) of
                        (Inl p, tr) \<Rightarrow>
                          (Inl p,
                           [ApiCall (account (panClient der)) API_GetFileDownloadUrl,
                            ApiCall (account (panClient der)) API_GetUserInfo] @ tr)
                      | (Inr subs, tr) \<Rightarrow>
                          (Inr (Some (primary # subs), None),
                           [ApiCall (account (panClient der)) API_GetFileDownloadUrl,
                            ApiCall (account (panClient der)) API_GetUserInfo] @ tr)))))"

definition albumRealUrl :: "string \<Rightarrow> ShareAlbumGetFileUrlResult \<Rightarrow> string" where
  "albumRealUrl ext durl =
     (case StreamsUrl durl of
        Some streams \<Rightarrow>
          (if ToLower ext = ''mov''
           then (if Mov streams = [] then [] else Mov streams)
           else (if Heic streams = [] then (if Jpeg streams = [] then [] else Jpeg streams)
                 else Heic streams))
      | None \<Rightarrow> (if Url durl = [] then [] else Url durl))"

definition getAlbumSourceDownloadUrl ::
  "Downloader \<Rightarrow> FileEntity
     \<Rightarrow> (panic + (panClientDownloadUrlEntity list option \<times> error option)) \<times> effect list" where
  "getAlbumSourceDownloadUrl der fi =
     (case ShareAlbumGetFileDownloadUrl (panClient der) (AlbumId fi) (DriveId fi) (FileId fi) of
        (durl, Some apierr) \<Rightarrow>
          (Inr (None, Some apierr),
           [ApiCall (account (panClient der)) API_ShareAlbumGetFileDownloadUrl,
            Trigger onCancelEvent])
      | (None, None) \<Rightarrow>
          (Inl NilPointerDereference,
           [ApiCall (account (panClient der)) API_ShareAlbumGetFileDownloadUrl])
      | (Some durl, None) \<Rightarrow>
          (if albumRealUrl (FileExtension fi) durl = []
           then (Inr (None, Some ErrFileDownloadForbidden),
                 [ApiCall (account (panClient der)) API_ShareAlbumGetFileDownloadUrl,
                  Trigger onCancelEvent, RemoveInstanceState, Trigger onFailedEvent])
           else (Inr (Some [\<lparr>url_PanClient = account (panClient der), url_FileInfo = fi,
                              url_DriveId = driveId der, url_FileId = FileId fi,
                              FileUrl = albumRealUrl (FileExtension fi) durl\<rparr>], None),
                 [ApiCall (account (panClient der)) API_ShareAlbumGetFileDownloadUrl])))"

definition getFileAllClientDownloadUrl ::
  "string \<Rightarrow> Downloader \<Rightarrow> FileEntity
     \<Rightarrow> (panic + (panClientDownloadUrlEntity list option \<times> error option)) \<times> effect list" where
  "getFileAllClientDownloadUrl illegalPrefix der fi =
     (if filePanSource der = AlbumSource then getAlbumSourceDownloadUrl der fi
      else getFileSourceDownloadUrl illegalPrefix der fi)"

subsection \<open>Building the workers\<close>

text \<open>
  The index \<open>int(k/factorNum)\<close> into \<open>panClientFileUrl\<close> for range index \<open>k\<close>: Go panics
  on a zero divisor and on an index outside the slice. All three numbers are lengths
  or loop indices, so they are natural numbers.
\<close>

definition urlSlot :: "nat \<Rightarrow> nat \<Rightarrow> nat \<Rightarrow> panic + nat" where
  "urlSlot factorNum urlCount k =
     (if factorNum = 0 then Inl IntegerDivideByZero
      else if k div factorNum < urlCount then Inr (k div factorNum)
      else Inl IndexOutOfRange)"

definition NewWorker :: "nat \<Rightarrow> panClientDownloadUrlEntity \<Rightarrow> int \<Rightarrow> Range \<Rightarrow> Worker" where
  "NewWorker k panClientUrl fileSize r =
     \<lparr>worker_id = k, worker_driveId = url_DriveId panClientUrl,
      worker_fileId = FileId (url_FileInfo panClientUrl), worker_url = FileUrl panClientUrl,
      worker_panClient = url_PanClient panClientUrl, worker_totalSize = fileSize,
      worker_acceptRange = ''bytes'', worker_range = r\<rparr>"

text \<open>
  The loop \<open>for k, r := range bii.Ranges\<close>, from index \<open>k\<close> on. The slot is computed before
  \<open>SequentialGet\<close> is called; a \<open>nil\<close> load balancer skips the worker.
\<close>

fun workersFrom ::
  "nat \<Rightarrow> panClientDownloadUrlEntity list \<Rightarrow> string list \<Rightarrow> int \<Rightarrow> nat \<Rightarrow> Range list
     \<Rightarrow> panic + Worker list" where
  "workersFrom factorNum urls lbl fileSize k [] = Inr []"
| "workersFrom factorNum urls lbl fileSize k (r # rs) =
     (case urlSlot factorNum (length urls) k of
        Inl p \<Rightarrow> Inl p
      | Inr slot \<Rightarrow>
          (case workersFrom factorNum urls lbl fileSize (Suc k) rs of
             Inl p \<Rightarrow> Inl p
           | Inr ws \<Rightarrow>
               (case SequentialGet lbl k of
                  None \<Rightarrow> Inr ws
                | Some loadBalancer \<Rightarrow> Inr (NewWorker k (urls ! slot) fileSize r # ws))))"

text \<open>
  \<open>factorNum := len(bii.Ranges) / len(panClientFileUrl)\<close> is computed once, before the
  loop, and panics on an empty URL list.
\<close>

definition initWorkers ::
  "panClientDownloadUrlEntity list \<Rightarrow> string list \<Rightarrow> int \<Rightarrow> Range list \<Rightarrow> panic + Worker list" where
  "initWorkers urls lbl fileSize ranges =
     (if length urls = 0 then Inl IntegerDivideByZero
      else workersFrom (length ranges div length urls) urls lbl fileSize 0 ranges)"

subsection \<open>Execute\<close>

text \<open>
  \<open>Execute\<close> is written in three parts that follow one another in the source. Each part
  either ends the call, with an outcome (a panic, or the returned error with \<open>None\<close> for
  \<open>nil\<close>) and the effects in order, or hands its local variables to the next part.
\<close>

record Session =
  ses_der :: Downloader
  ses_fileInfo :: FileEntity
  ses_config :: Config
  ses_monitor :: Monitor
  ses_loadBalancers :: "string list"
  ses_bii :: DownloadInstanceInfo
  ses_status :: DownloadStatus
  ses_effects :: "effect list"

record Plan =
  plan_session :: Session
  plan_parallel :: int
  plan_blockSize :: int
  plan_cacheSize :: int
  plan_ranges :: "Range list"
  plan_effects :: "effect list"

text \<open>
  First part, up to the rate limit: \<open>lazyInit\<close>, the return for a file of size zero, the
  probes, the checkpoint and the status. After \<open>lazyInit\<close> only \<open>der.fileInfo\<close> can still be
  \<open>nil\<close>.
\<close>

definition Execute_init :: "Extern \<Rightarrow> Downloader \<Rightarrow> (outcome \<times> effect list) + Session" where
  "Execute_init ext der0 =
     (let der = lazyInit ext der0
      in case (fileInfo der, config der, client der, durlCheckFunc der, monitor der) of
           (Some fi, Some cfg, Some cl, Some chk, Some mon) \<Rightarrow>
             (if FileSize fi = 0 then Inl (Returned None, [Trigger onFinishEvent])
              else
                (case checkLoadBalancers cfg cl chk (FileSize fi) (loadBalansers der) of
                   (Inl p, tr1) \<Rightarrow> Inl (Panicked p, tr1)
                 | (Inr lbl, tr1) \<Rightarrow>
                     (case ext_initInstanceState ext of
                        Some err \<Rightarrow> Inl (Returned (Some err), tr1 @ [InitInstanceState])
                      | None \<Rightarrow>
                          (let bii = (case ext_instanceState_Get ext of
                                        Some b \<Rightarrow> b
                                      | None \<Rightarrow> \<lparr>DownloadStatus = None, Ranges = []\<rparr>);
                               status0 = (case DownloadStatus bii of
                                            Some st \<Rightarrow> st
                                          | None \<Rightarrow> \<lparr>totalSize = FileSize fi, rangeListGen = None,
                                                      rateLimit = None\<rparr>);
                               status1 = (if MaxRate cfg > 0
                                          then status0\<lparr>rateLimit := Some (MaxRate cfg)\<rparr>
                                          else status0)
                           in Inr \<lparr>ses_der = der, ses_fileInfo = fi, ses_config = cfg,
                                    ses_monitor = mon, ses_loadBalancers = lbl, ses_bii = bii,
                                    ses_status = status1,
                                    ses_effects = tr1 @ [InitInstanceState]\<rparr>))))
         | _ \<Rightarrow> Inl (Panicked NilPointerDereference, []))"

text \<open>
  Second part: \<open>SelectParallel\<close>, \<open>SelectBlockSizeAndInitRangeGen\<close>, \<open>SelectCacheSize\<close>, the
  pre-allocation and the range list.
\<close>

definition Execute_plan :: "Extern \<Rightarrow> Session \<Rightarrow> (outcome \<times> effect list) + Plan" where
  "Execute_plan ext ses =
     (case SelectParallel (ext_MinParallelSize ext) (SliceParallel (ses_config ses))
             (ext_MaxParallelWorkerCount ext) (totalSize (ses_status ses))
             (Ranges (ses_bii ses)) of
        Inl p \<Rightarrow> Inl (Panicked p, ses_effects ses)
      | Inr parallel \<Rightarrow>
          (case SelectBlockSizeAndInitRangeGen (ext_LoadBlockSize ext) (ses_config ses)
                  (ses_status ses) parallel of
             Inl p \<Rightarrow> Inl (Panicked p, ses_effects ses)
           | Inr ((blockSize, Some err), status2) \<Rightarrow> Inl (Returned (Some err), ses_effects ses)
           | Inr ((blockSize, None), status2) \<Rightarrow>
               (let cacheSize = SelectCacheSize (CacheSize (ses_config ses)) blockSize;
                    tr3 = ses_effects ses @ [SetSyncPoolSize cacheSize]
                          @ (if writerIsFder (ses_der ses)
                             then [PreAlloc (totalSize status2)] else [])
                in case initRanges (ext_GenRange ext) (Ranges (ses_bii ses)) parallel
                          (FileSize (ses_fileInfo ses)) status2 of
                     Inl p \<Rightarrow> Inl (Panicked p, tr3)
                   | Inr ranges \<Rightarrow>
                       Inr \<lparr>plan_session = ses\<lparr>ses_status := status2\<rparr>,
                            plan_parallel = parallel, plan_blockSize = blockSize,
                            plan_cacheSize = cacheSize, plan_ranges = ranges,
                            plan_effects = tr3\<rparr>)))"

text \<open>
  Third part, from the call of \<open>getFileAllClientDownloadUrl\<close> to the return. The
  goroutine that drives the status callback is left out.
\<close>

definition Execute_workers :: "Extern \<Rightarrow> Plan \<Rightarrow> outcome \<times> effect list" where
  "Execute_workers ext pl =
     (let ses = plan_session pl; fi = ses_fileInfo ses; tr = plan_effects pl
      in case getFileAllClientDownloadUrl (ext_IllegalDownloadUrlPrefix ext) (ses_der ses) fi of
           (Inl p, tru) \<Rightarrow> (Panicked p, tr @ tru)
         | (Inr (None, err), tru) \<Rightarrow> (Returned err, tr @ tru @ [Trigger onCancelEvent])
         | (Inr (Some panClientFileUrl, Some err), tru) \<Rightarrow>
             (Returned (Some err), tr @ tru @ [Trigger onCancelEvent])
         | (Inr (Some panClientFileUrl, None), tru) \<Rightarrow>
             (case initWorkers panClientFileUrl (ses_loadBalancers ses) (FileSize fi)
                     (plan_ranges pl) of
                Inl p \<Rightarrow> (Panicked p, tr @ tru)
              | Inr ws \<Rightarrow>
                  (let running = (ses_monitor ses)
                         \<lparr>mon_capacity := plan_parallel pl,
                          mon_workers := mon_workers (ses_monitor ses) @ ws,
                          mon_status := Some (ses_status ses), mon_reloadWorker := True\<rparr>;
                       err = ext_monitor_Err ext running
                   in (Returned err,
                       tr @ tru @ [Trigger onExecuteEvent, MonitorExecute running]
                       @ (case err of
                            None \<Rightarrow> [Trigger onSuccessEvent, RemoveInstanceState]
                          | Some e \<Rightarrow>
                              (if e = ErrNoWokers \<and> FileSize fi = 0
                               then [Trigger onSuccessEvent, RemoveInstanceState] else []))
                       @ [Trigger onFinishEvent]))))"

definition Execute :: "Extern \<Rightarrow> Downloader \<Rightarrow> outcome \<times> effect list" where
  "Execute ext der =
     (case Execute_init ext der of
        Inl stop \<Rightarrow> stop
      | Inr ses \<Rightarrow>
          (case Execute_plan ext ses of
             Inl stop \<Rightarrow> stop
           | Inr pl \<Rightarrow> Execute_workers ext pl))"

subsection \<open>Pause, Resume, Cancel, Failed\<close>

text \<open>
  A method call on the monitor dereferences it: on \<open>nil\<close> that is a panic. The four
  operations test \<open>der.monitor == nil\<close> first.
\<close>

definition Monitor_call :: "Monitor option \<Rightarrow> effect \<Rightarrow> (panic + unit) \<times> effect list" where
  "Monitor_call m e =
     (case m of None \<Rightarrow> (Inl NilPointerDereference, []) | Some mon \<Rightarrow> (Inr (), [e]))"

definition Pause :: "Downloader \<Rightarrow> (panic + unit) \<times> effect list" where
  "Pause der =
     (if monitor der = None then (Inr (), [])
      else (case Monitor_call (monitor der) MonitorPause of
              (r, tr) \<Rightarrow> (r, Trigger onPauseEvent # tr)))"

definition Resume :: "Downloader \<Rightarrow> (panic + unit) \<times> effect list" where
  "Resume der =
     (if monitor der = None then (Inr (), [])
      else (case Monitor_call (monitor der) MonitorResume of
              (r, tr) \<Rightarrow> (r, Trigger onResumeEvent # tr)))"

definition Cancel :: "Downloader \<Rightarrow> (panic + unit) \<times> effect list" where
  "Cancel der =
     (if monitor der = None then (Inr (), [])
      else (Inr (), [Trigger onCancelEvent, TriggerMonitorCancelFunc]))"

definition Failed :: "Downloader \<Rightarrow> (panic + unit) \<times> effect list" where
  "Failed der =
     (if monitor der = None then (Inr (), [])
      else (Inr (), [Trigger onFailedEvent, TriggerMonitorCancelFunc]))"

subsection \<open>The blockSize formula as the specification words it\<close>

text \<open>
  The specification's \<open>min(blockSizeHint, \<lceil>totalSize/parallel\<rceil> + 1)\<close>, to be compared with
  what \<open>SelectBlockSizeAndInitRangeGen\<close> computes.
\<close>

definition spec_ceiling_div :: "int \<Rightarrow> int \<Rightarrow> int" where
  "spec_ceiling_div a b = - ((- a) div b)"

definition spec_BlockSize_mode_blockSize :: "int \<Rightarrow> int \<Rightarrow> int \<Rightarrow> int" where
  "spec_BlockSize_mode_blockSize blockSizeHint totalSz par =
     min blockSizeHint (spec_ceiling_div totalSz par + 1)"

subsection \<open>Sample sessions\<close>

text \<open>
  Concrete inputs on which the theorems below are instantiated: a file of 200 bytes on
  drive \<open>d1\<close>, a main account and an auxiliary account that both answer with a link, a
  configuration in \<open>BlockSize\<close> mode, and surroundings with no checkpoint in which the
  monitor ends without error.
\<close>

definition sample_file :: FileEntity where
  "sample_file = \<lparr>FileId = ''f1'', FileSize = 200, FileExtension = ''bin'', Path = ''/a.bin'',
                  AlbumId = [], DriveId = ''d1''\<rparr>"

definition sample_main :: PanClient where
  "sample_main =
     \<lparr>account = ''main'',
      GetFileDownloadUrl = (\<lambda>d f. (Some ''https://cdn/a'', None)),
      GetUserInfo = (Some \<lparr>FileDriveId = ''d1'', ResourceDriveId = ''d2''\<rparr>, None),
      FileInfoByPath = (\<lambda>d p. (Some sample_file, None)),
      ShareAlbumGetFileDownloadUrl =
        (\<lambda>a d f. (Some \<lparr>StreamsUrl = None, Url = ''https://cdn/p''\<rparr>, None))\<rparr>"

definition sample_sub :: PanClient where
  "sample_sub =
     \<lparr>account = ''sub'',
      GetFileDownloadUrl = (\<lambda>d f. (Some ''https://cdn/b'', None)),
      GetUserInfo = (Some \<lparr>FileDriveId = ''e1'', ResourceDriveId = ''e2''\<rparr>, None),
      FileInfoByPath = (\<lambda>d p. (Some sample_file, None)),
      ShareAlbumGetFileDownloadUrl =
        (\<lambda>a d f. (Some \<lparr>StreamsUrl = None, Url = ''https://cdn/q''\<rparr>, None))\<rparr>"

definition sample_config :: Config where
  "sample_config = \<lparr>Mode = RangeGenMode_BlockSize, BlockSize = 100, SliceParallel = 0,
                    CacheSize = 64, MaxRate = 0, TryHTTP = False\<rparr>"

definition sample_extern :: Extern where
  "sample_extern =
     \<lparr>ext_MinParallelSize = 1024, ext_MaxParallelWorkerCount = 3,
      ext_IllegalDownloadUrlPrefix = ''illegal'',
      ext_NewConfig = sample_config,
      ext_NewHTTPClient = \<lparr>Req = (\<lambda>u. (None, Some (OtherError ''offline'')))\<rparr>,
      ext_LoadBlockSize = (\<lambda>g. 0),
      ext_GenRange = (\<lambda>g. (None, g)),
      ext_initInstanceState = None,
      ext_instanceState_Get = None,
      ext_monitor_Err = (\<lambda>m. None)\<rparr>"

definition sample_downloader :: "PanClient list \<Rightarrow> Downloader" where
  "sample_downloader sp =
     SetDriveId ''d1''
       (SetFileInfo FileSource sample_file (NewDownloader False (Some sample_config) sample_main sp))"

section \<open>Properties\<close>

subsection \<open>Arithmetic within the 64-bit range\<close>

lemma wrap_int64_id: "- (2 ^ 63) \<le> x \<Longrightarrow> x < 2 ^ 63 \<Longrightarrow> wrap_int64 x = x"
  by (simp add: wrap_int64_def)

lemma go_div64_nonneg:
  assumes "0 \<le> a" "a < 2 ^ 63" "0 < b"
  shows "go_div64 a b = a div b"
proof -
  have s: "a sdiv b = a div b"
    using assms by (simp add: signed_divide_int_def sgn_if)
  have "0 \<le> a div b" using assms by (simp add: pos_imp_zdiv_nonneg_iff)
  moreover have "a div b \<le> a" using zdiv_mono2 [of a 1 b] assms by simp
  ultimately show ?thesis using assms s by (simp add: go_div64_def wrap_int64_id)
qed

subsection \<open>Parallelism and a checkpoint's range list\<close>

text \<open>
  With a preferred parallelism of 2 and a checkpoint of three ranges, \<open>SelectParallel\<close>
  returns 2 and not the length of the range list: the test \<open>prefParallel > 0\<close> comes
  first in the source.
\<close>

theorem SelectParallel_checkpoint_counterexample:
  "SelectParallel 1024 2 3 200
     [\<lparr>Begin = 0, End = 50\<rparr>, \<lparr>Begin = 50, End = 100\<rparr>, \<lparr>Begin = 100, End = 200\<rparr>] = Inr 2 \<and>
   SelectParallel 1024 2 3 200
     [\<lparr>Begin = 0, End = 50\<rparr>, \<lparr>Begin = 50, End = 100\<rparr>, \<lparr>Begin = 100, End = 200\<rparr>] \<noteq>
     Inr (int (length
       [\<lparr>Begin = 0, End = 50\<rparr>, \<lparr>Begin = 50, End = 100\<rparr>, \<lparr>Begin = 100, End = (200::int)\<rparr>]))"
  by (simp add: SelectParallel_def)

text \<open>
  Claim C2, amended. For a checkpoint range list that is not empty, \<open>SelectParallel\<close>
  returns the preferred parallelism when that is positive, and the length of the range
  list otherwise: the preferred-parallel setting takes precedence over the
  checkpoint's range count.
\<close>

theorem SelectParallel_checkpoint:
  "instanceRangeList \<noteq> [] \<Longrightarrow>
   SelectParallel m prefParallel maxParallel totalSz instanceRangeList =
     Inr (if 0 < prefParallel then prefParallel else int (length instanceRangeList))"
  by (cases instanceRangeList) (simp_all add: SelectParallel_def Let_def)

theorem SelectParallel_checkpoint_witness:
  "SelectParallel 1024 0 3 200 [\<lparr>Begin = 0, End = 100\<rparr>, \<lparr>Begin = 100, End = 200\<rparr>] = Inr 2 \<and>
   SelectParallel 1024 5 3 200 [\<lparr>Begin = 0, End = 100\<rparr>, \<lparr>Begin = 100, End = 200\<rparr>] = Inr 5"
  using SelectParallel_checkpoint [of "[\<lparr>Begin = 0, End = 100\<rparr>, \<lparr>Begin = 100, End = 200\<rparr>]" 1024 0 3 200]
    SelectParallel_checkpoint [of "[\<lparr>Begin = 0, End = 100\<rparr>, \<lparr>Begin = 100, End = 200\<rparr>]" 1024 5 3 200]
  by simp

subsection \<open>A file of size zero\<close>

text \<open>
  Claim C6. For a file of size zero \<open>Execute\<close> returns \<open>nil\<close> and its only effect is one
  \<open>Trigger\<close> of the Finish event: no Success event, no probe, no call of an account's
  API, and no \<open>initInstanceState\<close> on the checkpoint.
\<close>

theorem Execute_zero_length:
  "fileInfo der = Some fi \<Longrightarrow> FileSize fi = 0 \<Longrightarrow>
   Execute ext der = (Returned None, [Trigger onFinishEvent])"
  by (simp add: Execute_def Execute_init_def lazyInit_def)

theorem Execute_zero_length_witness:
  "Execute sample_extern
     (SetFileInfo FileSource (sample_file\<lparr>FileSize := 0\<rparr>) (sample_downloader []))
     = (Returned None, [Trigger onFinishEvent])"
  using Execute_zero_length
    [of "SetFileInfo FileSource (sample_file\<lparr>FileSize := 0\<rparr>) (sample_downloader [])"
      "sample_file\<lparr>FileSize := 0\<rparr>" sample_extern]
  by (simp add: SetFileInfo_def)

subsection \<open>The block size in BlockSize mode\<close>

text \<open>
  For 10 bytes, three threads and a configured block size of 100 the source computes
  \<open>10/3 + 1 = 4\<close>, where the specification's formula with the ceiling gives 5.
\<close>

theorem BlockSize_mode_blockSize_counterexample:
  "map_sum id (fst \<circ> fst)
     (SelectBlockSizeAndInitRangeGen (\<lambda>g. 0) sample_config
        \<lparr>totalSize = 10, rangeListGen = None, rateLimit = None\<rparr> 3) = Inr 4 \<and>
   spec_BlockSize_mode_blockSize (BlockSize sample_config) 10 3 = 5"
  by (simp add: SelectBlockSizeAndInitRangeGen_def sample_config_def go_div64_def wrap_int64_def
      signed_divide_int_def spec_BlockSize_mode_blockSize_def spec_ceiling_div_def)

text \<open>
  Claim C7, amended. In \<open>BlockSize\<close> mode, with more than one thread, no range generator
  restored from a checkpoint and a total size within \<open>int64\<close>, the block size is
  \<open>min(BlockSize, \<lfloor>totalSize/parallel\<rfloor> + 1)\<close>: the quotient is rounded down, not up.
\<close>

theorem BlockSize_mode_blockSize:
  assumes "Mode cfg = RangeGenMode_BlockSize" "1 < par" "rangeListGen st = None"
    "0 \<le> totalSize st" "totalSize st < 2 ^ 63"
  shows "map_sum id (fst \<circ> fst) (SelectBlockSizeAndInitRangeGen lb cfg st par) =
     Inr (min (BlockSize cfg) (totalSize st div par + 1))"
proof -
  have d: "go_div64 (totalSize st) par = totalSize st div par"
    using assms by (simp add: go_div64_nonneg)
  have "0 \<le> totalSize st div par" using assms by (simp add: pos_imp_zdiv_nonneg_iff)
  moreover have "totalSize st div par \<le> totalSize st div 2"
    using zdiv_mono2 [of "totalSize st" 2 par] assms by simp
  ultimately have w: "wrap_int64 (totalSize st div par + 1) = totalSize st div par + 1"
    using assms by (intro wrap_int64_id) auto
  show ?thesis using assms
    by (simp add: SelectBlockSizeAndInitRangeGen_def d w Let_def min_def)
qed

theorem BlockSize_mode_blockSize_witness:
  "map_sum id (fst \<circ> fst)
     (SelectBlockSizeAndInitRangeGen (\<lambda>g. 0) sample_config
        \<lparr>totalSize = 10, rangeListGen = None, rateLimit = None\<rparr> 3) = Inr 4"
  using BlockSize_mode_blockSize [of sample_config 3
      "\<lparr>totalSize = 10, rangeListGen = None, rateLimit = None\<rparr>" "\<lambda>g. 0"]
  by (simp add: sample_config_def)

subsection \<open>Pause, Resume and Cancel without a monitor\<close>

text \<open>
  Claim C10. On a downloader whose monitor is still \<open>nil\<close>, as \<open>NewDownloader\<close> leaves it,
  \<open>Pause\<close>, \<open>Resume\<close> and \<open>Cancel\<close> each return without a panic and without any effect: no
  event is triggered and no method of the monitor is called.
\<close>

theorem control_before_Execute:
  "monitor der = None \<Longrightarrow>
   Pause der = (Inr (), []) \<and> Resume der = (Inr (), []) \<and> Cancel der = (Inr (), [])"
  by (simp add: Pause_def Resume_def Cancel_def)

theorem control_before_Execute_witness:
  "monitor (NewDownloader False None sample_main []) = None \<and>
   Pause (NewDownloader False None sample_main []) = (Inr (), []) \<and>
   Resume (NewDownloader False None sample_main []) = (Inr (), []) \<and>
   Cancel (NewDownloader False None sample_main []) = (Inr (), [])"
proof -
  have h: "monitor (NewDownloader False None sample_main []) = None"
    by (simp add: NewDownloader_def)
  show ?thesis using h control_before_Execute [OF h] by simp
qed

end
